theory Spec2Isabelle
  imports Main "HOL-Library.Sublist" "HOL-Library.AList" "HOL-Library.Word" "HOL-Library.Multiset"
begin

section \<open>Python values, strings and errors\<close>

text \<open>
  The program is \<^verbatim>\<open>resume_tailor_script.py\<close>. Its strings are modelled as
  \<^typ>\<open>string\<close>, a character standing for the code point of the same number, U+0000
  to U+00FF. On these \<^verbatim>\<open>str.lower\<close> maps \<^verbatim>\<open>A-Z\<close> and the capital letters
  U+00C0 to U+00DE (but not the multiplication sign U+00D7) to the letter 32 places
  further, and \<^verbatim>\<open>str.strip\<close> removes at both ends the characters for which
  \<^verbatim>\<open>str.isspace\<close> holds: U+0009 to U+000D, U+001C to U+0020, U+0085 and U+00A0.

  A value that \<^verbatim>\<open>json.loads\<close> returns is a \<open>pyval\<close>: \<^verbatim>\<open>None\<close>, a bool,
  an int, a float (its 64 bits), a str, a list, or a dict with str keys in insertion
  order.
\<close>

datatype pyval =
    PNone
  | PBool bool
  | PInt int
  | PFloat "64 word"
  | PStr string
  | PList "pyval list"
  | PDict "(string \<times> pyval) list"

datatype py_error =
    AttributeError
  | TypeError
  | JSONDecodeError
  | RecursionError
  | ConnectionError

definition newline :: char where
  "newline = CHR 0x0A"

definition dquote :: char where
  "dquote = CHR 0x22"


definition lower_char :: "char \<Rightarrow> char" where
  "lower_char c =
     (case map_of
        (zip (''ABCDEFGHIJKLMNOPQRSTUVWXYZ'' @
              [CHR 0xC0, CHR 0xC1, CHR 0xC2, CHR 0xC3, CHR 0xC4, CHR 0xC5, CHR 0xC6, CHR 0xC7,
               CHR 0xC8, CHR 0xC9, CHR 0xCA, CHR 0xCB, CHR 0xCC, CHR 0xCD, CHR 0xCE, CHR 0xCF,
               CHR 0xD0, CHR 0xD1, CHR 0xD2, CHR 0xD3, CHR 0xD4, CHR 0xD5, CHR 0xD6, CHR 0xD8,
               CHR 0xD9, CHR 0xDA, CHR 0xDB, CHR 0xDC, CHR 0xDD, CHR 0xDE])
             (''abcdefghijklmnopqrstuvwxyz'' @
              [CHR 0xE0, CHR 0xE1, CHR 0xE2, CHR 0xE3, CHR 0xE4, CHR 0xE5, CHR 0xE6, CHR 0xE7,
               CHR 0xE8, CHR 0xE9, CHR 0xEA, CHR 0xEB, CHR 0xEC, CHR 0xED, CHR 0xEE, CHR 0xEF,
               CHR 0xF0, CHR 0xF1, CHR 0xF2, CHR 0xF3, CHR 0xF4, CHR 0xF5, CHR 0xF6, CHR 0xF8,
               CHR 0xF9, CHR 0xFA, CHR 0xFB, CHR 0xFC, CHR 0xFD, CHR 0xFE])) c of
        Some l \<Rightarrow> l
      | None \<Rightarrow> c)"

definition lower :: "string \<Rightarrow> string" where
  "lower s = map lower_char s"

definition isspace :: "char \<Rightarrow> bool" where
  "isspace c \<longleftrightarrow>
     c \<in> set [CHR 0x09, CHR 0x0A, CHR 0x0B, CHR 0x0C, CHR 0x0D,
               CHR 0x1C, CHR 0x1D, CHR 0x1E, CHR 0x1F, CHR 0x20,
               CHR 0x85, CHR 0xA0]"

definition strip :: "string \<Rightarrow> string" where
  "strip s = rev (dropWhile isspace (rev (dropWhile isspace s)))"

text \<open>\<^verbatim>\<open>a in b\<close> on two strings: \<open>a\<close> occurs in \<open>b\<close> as a contiguous block.\<close>

definition str_in :: "string \<Rightarrow> string \<Rightarrow> bool" where
  "str_in a b = sublist a b"

text \<open>
  \<^verbatim>\<open>s.replace(old, new)\<close>: every non-overlapping occurrence of \<open>old\<close>, found from
  the left, becomes \<open>new\<close>. With an empty \<open>old\<close>, \<open>new\<close> is put before every character
  and at the end.
\<close>

function replace_scan :: "string \<Rightarrow> string \<Rightarrow> string \<Rightarrow> string" where
  "replace_scan old new [] = []"
| "replace_scan old new (c # cs) =
     (if old \<noteq> [] \<and> prefix old (c # cs)
      then new @ replace_scan old new (drop (length old) (c # cs))
      else c # replace_scan old new cs)"
  by pat_completeness auto
termination
  by (relation "measure (\<lambda>(old, new, s). length s)") (auto simp: neq_Nil_conv)

definition py_replace :: "string \<Rightarrow> string \<Rightarrow> string \<Rightarrow> string" where
  "py_replace old new s =
     (if old = [] then new @ concat (map (\<lambda>c. c # new) s) else replace_scan old new s)"


section \<open>Job profile extraction\<close>

text \<open>
  \<^verbatim>\<open>call_llm\<close> (the language-model client) and \<^verbatim>\<open>json.loads\<close> are not code of
  this program: they are parameters, each returning its result or the exception it
  raised.
\<close>

definition extract_system_prompt :: string where
  "extract_system_prompt = ''Extract structured job requirements. Always return valid JSON.''"

definition extract_user_prompt :: "string \<Rightarrow> string" where
  "extract_user_prompt job_posting =
     [newline] @ ''    Extract the following fields from the job posting and return ONLY valid JSON:''
     @ [newline, newline] @ ''    {''
     @ [newline] @ ''      '' @ [dquote] @ ''required_skills'' @ [dquote] @ '': [],''
     @ [newline] @ ''      '' @ [dquote] @ ''preferred_skills'' @ [dquote] @ '': [],''
     @ [newline] @ ''      '' @ [dquote] @ ''tools'' @ [dquote] @ '': [],''
     @ [newline] @ ''      '' @ [dquote] @ ''responsibilities'' @ [dquote] @ '': [],''
     @ [newline] @ ''      '' @ [dquote] @ ''soft_skills'' @ [dquote] @ '': [],''
     @ [newline] @ ''      '' @ [dquote] @ ''keywords'' @ [dquote] @ '': [],''
     @ [newline] @ ''      '' @ [dquote] @ ''job_title'' @ [dquote] @ '': '' @ [dquote, dquote] @ '',''
     @ [newline] @ ''      '' @ [dquote] @ ''company_name'' @ [dquote] @ '': '' @ [dquote, dquote]
     @ [newline] @ ''    }''
     @ [newline, newline] @ ''    Job posting:''
     @ [newline] @ ''    '' @ job_posting
     @ [newline] @ ''    ''"

definition empty_job_profile :: pyval where
  "empty_job_profile = PDict
     [(''required_skills'', PList []),
      (''preferred_skills'', PList []),
      (''tools'', PList []),
      (''responsibilities'', PList []),
      (''soft_skills'', PList []),
      (''keywords'', PList []),
      (''job_title'', PStr []),
      (''company_name'', PStr [])]"

text \<open>
  The call of the language model stands before the \<^verbatim>\<open>try\<close>: what it raises escapes.
  The bare \<^verbatim>\<open>except\<close> catches whatever \<^verbatim>\<open>json.loads\<close> raises.
\<close>

definition extract_job_profile ::
  "(string \<Rightarrow> py_error + pyval) \<Rightarrow> (string \<Rightarrow> string \<Rightarrow> py_error + string) \<Rightarrow> string
     \<Rightarrow> py_error + pyval" where
  "extract_job_profile json_loads call_llm job_posting =
     (case call_llm extract_system_prompt (extract_user_prompt job_posting) of
        Inl e \<Rightarrow> Inl e
      | Inr text \<Rightarrow>
          (case json_loads text of
             Inr v \<Rightarrow> Inr v
           | Inl e \<Rightarrow> Inr empty_job_profile))"

section \<open>Skill filtering\<close>

type_synonym catalog = "(string \<times> string list) list"

definition normalize_skill :: "string \<Rightarrow> string" where
  "normalize_skill s = strip (lower s)"

text \<open>\<^verbatim>\<open>job_profile.get(key, default)\<close>: only a dict has \<^verbatim>\<open>get\<close>.\<close>

fun py_get :: "pyval \<Rightarrow> string \<Rightarrow> pyval \<Rightarrow> py_error + pyval" where
  "py_get (PDict kvs) key dflt = Inr (case map_of kvs key of Some v \<Rightarrow> v | None \<Rightarrow> dflt)"
| "py_get _ key dflt = Inl AttributeError"

text \<open>\<^verbatim>\<open>for x in v\<close>: a list gives its elements, a str its characters, a dict its keys.\<close>

fun py_iter :: "pyval \<Rightarrow> py_error + pyval list" where
  "py_iter (PList xs) = Inr xs"
| "py_iter (PStr s) = Inr (map (\<lambda>c. PStr [c]) s)"
| "py_iter (PDict kvs) = Inr (map (\<lambda>kv. PStr (fst kv)) kvs)"
| "py_iter _ = Inl TypeError"

text \<open>\<^verbatim>\<open>normalize_skill(x)\<close> on a value: only a str has \<^verbatim>\<open>lower\<close>.\<close>

fun normalize_value :: "pyval \<Rightarrow> py_error + string" where
  "normalize_value (PStr s) = Inr (normalize_skill s)"
| "normalize_value _ = Inl AttributeError"

fun normalize_values :: "pyval list \<Rightarrow> py_error + string list" where
  "normalize_values [] = Inr []"
| "normalize_values (x # xs) =
     (case normalize_value x of
        Inl e \<Rightarrow> Inl e
      | Inr t \<Rightarrow> (case normalize_values xs of Inl e \<Rightarrow> Inl e | Inr ts \<Rightarrow> Inr (t # ts)))"

text \<open>The generator under \<^verbatim>\<open>set(...)\<close>: key by key, the first exception ends it.\<close>

fun collect_terms :: "pyval \<Rightarrow> string list \<Rightarrow> py_error + string list" where
  "collect_terms job_profile [] = Inr []"
| "collect_terms job_profile (key # keys) =
     (case py_get job_profile key (PList []) of
        Inl e \<Rightarrow> Inl e
      | Inr v \<Rightarrow>
          (case py_iter v of
             Inl e \<Rightarrow> Inl e
           | Inr xs \<Rightarrow>
               (case normalize_values xs of
                  Inl e \<Rightarrow> Inl e
                | Inr ts \<Rightarrow>
                    (case collect_terms job_profile keys of
                       Inl e \<Rightarrow> Inl e
                     | Inr rest \<Rightarrow> Inr (ts @ rest)))))"

definition term_keys :: "string list" where
  "term_keys = [''required_skills'', ''preferred_skills'', ''tools'', ''keywords'']"

definition job_terms :: "pyval \<Rightarrow> py_error + string set" where
  "job_terms job_profile =
     (case collect_terms job_profile term_keys of Inl e \<Rightarrow> Inl e | Inr ts \<Rightarrow> Inr (set ts))"

definition ALWAYS_KEEP :: "string set" where
  "ALWAYS_KEEP = {''git'', ''github'', ''debugging'', ''react'', ''next.js'',
                  ''node.js'', ''express.js'', ''sql'', ''mysql'', ''mongodb''}"

text \<open>The condition of the inner loop, on one skill.\<close>

definition keep_skill :: "string set \<Rightarrow> string \<Rightarrow> bool" where
  "keep_skill terms skill =
     (let norm = normalize_skill skill
      in (\<exists>term \<in> terms. str_in term norm \<or> str_in norm term) \<or> norm \<in> ALWAYS_KEEP)"

text \<open>
  The loop over \<^verbatim>\<open>master.items()\<close>, with the dict \<^verbatim>\<open>filtered\<close> as accumulator;
  \<^verbatim>\<open>filtered[category] = kept\<close> is \<^const>\<open>AList.update\<close>: a new key goes last, a
  key already there keeps its place.
\<close>

fun filter_loop :: "string set \<Rightarrow> catalog \<Rightarrow> catalog \<Rightarrow> catalog" where
  "filter_loop terms [] filtered = filtered"
| "filter_loop terms ((category, skills) # rest) filtered =
     (let kept = filter (keep_skill terms) skills
      in filter_loop terms rest
           (if kept \<noteq> [] then AList.update category kept filtered else filtered))"

definition build_relevant_skills :: "pyval \<Rightarrow> catalog \<Rightarrow> py_error + catalog" where
  "build_relevant_skills job_profile master =
     (case job_terms job_profile of
        Inl e \<Rightarrow> Inl e
      | Inr terms \<Rightarrow> Inr (filter_loop terms master []))"

text \<open>
  The job profile of the data model: six sequences of strings and two strings. As a
  Python value it is the dict \<open>profile_dict p\<close>.
\<close>

record job_profile =
  required_skills :: "string list"
  preferred_skills :: "string list"
  tools :: "string list"
  responsibilities :: "string list"
  soft_skills :: "string list"
  keywords' :: "string list"
  job_title :: string
  company_name :: string

definition profile_dict :: "job_profile \<Rightarrow> pyval" where
  "profile_dict p = PDict
     [(''required_skills'', PList (map PStr (required_skills p))),
      (''preferred_skills'', PList (map PStr (preferred_skills p))),
      (''tools'', PList (map PStr (tools p))),
      (''responsibilities'', PList (map PStr (responsibilities p))),
      (''soft_skills'', PList (map PStr (soft_skills p))),
      (''keywords'', PList (map PStr (keywords' p))),
      (''job_title'', PStr (job_title p)),
      (''company_name'', PStr (company_name p))]"

text \<open>
  A value is a well-formed job profile when it is a dict that holds a list of strings
  under each of the six sequence fields and a string under each of the two others.
\<close>

fun is_str_list :: "pyval \<Rightarrow> bool" where
  "is_str_list (PList xs) = list_all (\<lambda>x. case x of PStr s \<Rightarrow> True | _ \<Rightarrow> False) xs"
| "is_str_list _ = False"

fun is_str :: "pyval \<Rightarrow> bool" where
  "is_str (PStr s) = True"
| "is_str _ = False"

definition well_formed_profile :: "pyval \<Rightarrow> bool" where
  "well_formed_profile v =
     (case v of
        PDict kvs \<Rightarrow>
          list_all (\<lambda>key. case map_of kvs key of Some x \<Rightarrow> is_str_list x | None \<Rightarrow> False)
            [''required_skills'', ''preferred_skills'', ''tools'', ''responsibilities'',
             ''soft_skills'', ''keywords'']
          \<and> list_all (\<lambda>key. case map_of kvs key of Some x \<Rightarrow> is_str x | None \<Rightarrow> False)
                [''job_title'', ''company_name'']
      | _ \<Rightarrow> False)"

text \<open>
  The specification's words for the filter, written without the code's
  \<open>normalize_skill\<close>. A string \<open>t\<close> is \<open>s\<close> trimmed when \<open>s\<close> is \<open>t\<close> between two runs of
  whitespace and \<open>t\<close> neither starts nor ends with whitespace. The normal form of a
  string is its lower-cased text, trimmed. The job terms are the normal forms of the
  strings of four fields. A skill is retained when its normal form is a substring of
  some job term, or some job term is a substring of it, or it is in the always-keep
  list.
\<close>

definition trimmed :: "string \<Rightarrow> string \<Rightarrow> bool" where
  "trimmed s t \<longleftrightarrow>
     (\<exists>before after. s = before @ t @ after
        \<and> list_all isspace before \<and> list_all isspace after
        \<and> (t \<noteq> [] \<longrightarrow> \<not> isspace (hd t) \<and> \<not> isspace (last t)))"

definition normal_form :: "string \<Rightarrow> string \<Rightarrow> bool" where
  "normal_form s n \<longleftrightarrow> trimmed (map lower_char s) n"

definition term_strings :: "job_profile \<Rightarrow> string set" where
  "term_strings p =
     set (required_skills p) \<union> set (preferred_skills p) \<union> set (tools p) \<union> set (keywords' p)"

definition spec_terms :: "job_profile \<Rightarrow> string set" where
  "spec_terms p = {n. \<exists>s \<in> term_strings p. normal_form s n}"

definition spec_retained :: "job_profile \<Rightarrow> string \<Rightarrow> bool" where
  "spec_retained p skill \<longleftrightarrow>
     (\<exists>n. normal_form skill n
        \<and> ((\<exists>term \<in> spec_terms p. sublist n term)
           \<or> (\<exists>term \<in> spec_terms p. sublist term n)
           \<or> n \<in> ALWAYS_KEEP))"

text \<open>A skill of the always-keep list, whatever its case and surrounding blanks.\<close>

definition always_kept :: "string \<Rightarrow> bool" where
  "always_kept skill \<longleftrightarrow> (\<exists>n. normal_form skill n \<and> n \<in> ALWAYS_KEEP)"

text \<open>
  A catalog restricted to the skills a predicate keeps, categories left empty dropped.
\<close>

definition restrict_catalog :: "(string \<Rightarrow> bool) \<Rightarrow> catalog \<Rightarrow> catalog" where
  "restrict_catalog keep master =
     filter (\<lambda>(category, kept). kept \<noteq> [])
       (map (\<lambda>(category, skills). (category, filter keep skills)) master)"

text \<open>A skill stands in the output under a category.\<close>

definition retained :: "catalog \<Rightarrow> string \<Rightarrow> string \<Rightarrow> bool" where
  "retained out category skill \<longleftrightarrow>
     (\<exists>kept. map_of out category = Some kept \<and> skill \<in> set kept)"

section \<open>Skills table\<close>








section \<open>Template filling\<close>

text \<open>The environment is a map from variable names to values.\<close>

definition getenv :: "(string \<rightharpoonup> string) \<Rightarrow> string \<Rightarrow> string \<Rightarrow> string" where
  "getenv env key dflt = (case env key of Some v \<Rightarrow> v | None \<Rightarrow> dflt)"

definition load_profile :: "(string \<rightharpoonup> string) \<Rightarrow> (string \<times> string) list" where
  "load_profile env =
     [(''FIRST_NAME'', getenv env ''FIRST_NAME'' []),
      (''LAST_NAME'', getenv env ''LAST_NAME'' []),
      (''EMAIL'', getenv env ''EMAIL'' []),
      (''PHONE'', getenv env ''PHONE'' []),
      (''ADDRESS'', getenv env ''ADDRESS'' []),
      (''GITHUB'', getenv env ''GITHUB'' []),
      (''LINKEDIN'', getenv env ''LINKEDIN'' [])]"

definition placeholder :: "string \<Rightarrow> string" where
  "placeholder key = ''{{'' @ key @ ''}}''"

fun fill_loop :: "(string \<times> string) list \<Rightarrow> string \<Rightarrow> string" where
  "fill_loop [] html = html"
| "fill_loop ((key, val) # rest) html = fill_loop rest (py_replace (placeholder key) val html)"

definition fill_static_placeholders :: "(string \<rightharpoonup> string) \<Rightarrow> string \<Rightarrow> string" where
  "fill_static_placeholders env html = fill_loop (load_profile env) html"

definition nl2br :: "string \<Rightarrow> string" where
  "nl2br s = py_replace [newline] ''<br>'' s"

text \<open>The template file's text is the parameter \<open>template\<close>.\<close>

definition fill_resume_template ::
  "(string \<rightharpoonup> string) \<Rightarrow> string \<Rightarrow> string \<Rightarrow> string \<Rightarrow> string \<Rightarrow> string \<Rightarrow> string" where
  "fill_resume_template env template summary projects experience skills_table_html =
     (let html = template;
          html = fill_static_placeholders env html;
          html = py_replace ''{{SUMMARY}}'' (strip summary) html;
          html = py_replace ''{{PROJECTS}}'' (py_replace [newline] ''<br>'' (strip projects)) html;
          html = py_replace ''{{EXPERIENCE}}'' (py_replace [newline] ''<br>'' (strip experience)) html;
          html = py_replace ''{{SKILLS_TABLE}}'' skills_table_html html
      in html)"

definition build_cover_letter_html :: "string \<Rightarrow> pyval \<Rightarrow> string" where
  "build_cover_letter_html text job_profile =
     [newline] @ ''    <html><body>''
     @ [newline] @ ''    <div class='' @ [dquote] @ ''container'' @ [dquote] @ ''>''
     @ [newline] @ ''        <h2>Cover Letter</h2>''
     @ [newline] @ ''        <p>'' @ py_replace [newline] ''<br>'' text @ ''</p>''
     @ [newline] @ ''    </div>''
     @ [newline] @ ''    </body></html>''
     @ [newline] @ ''    ''"

section \<open>Templates made of text and placeholders\<close>













section \<open>Sample inputs\<close>

text \<open>
  The specification's example: a job profile that requires only \<^verbatim>\<open>sql\<close>, and a
  catalog with one category.
\<close>

definition sql_profile :: job_profile where
  "sql_profile = \<lparr>required_skills = [''sql''], preferred_skills = [], tools = [],
     responsibilities = [], soft_skills = [], keywords' = [], job_title = [], company_name = []\<rparr>"

definition databases_catalog :: catalog where
  "databases_catalog = [(''Databases'', [''MySQL'', ''MongoDB''])]"

text \<open>A profile with no job term at all, and a catalog with a category that empties.\<close>

definition idle_profile :: job_profile where
  "idle_profile = \<lparr>required_skills = [], preferred_skills = [], tools = [],
     responsibilities = [''write cobol''], soft_skills = [''oracle''], keywords' = [],
     job_title = ''Developer'', company_name = ''Acme''\<rparr>"

definition padded_mysql :: string where
  "padded_mysql = [CHR 0xA0] @ ''MySQL'' @ [CHR 0x85, CHR 0x09]"

definition mixed_catalog :: catalog where
  "mixed_catalog = [(''Legacy'', [''Cobol'']), (''Databases'', [''Oracle'', padded_mysql])]"

text \<open>
  A profile whose terms need lower-casing and trimming (a tab, a no-break space and a
  newline around \<^verbatim>\<open>PyThon\<close>; \<^verbatim>\<open>ECOLE\<close> with a capital E acute), and a catalog whose
  skills need them too.
\<close>

definition shouting_profile :: job_profile where
  "shouting_profile = \<lparr>required_skills = [[CHR 0x09] @ '' PyThon'' @ [CHR 0xA0, CHR 0x0A]],
     preferred_skills = [], tools = [[CHR 0xC9] @ ''COLE''],
     responsibilities = [''java''], soft_skills = [], keywords' = [],
     job_title = [], company_name = []\<rparr>"

definition languages_catalog :: catalog where
  "languages_catalog =
     [(''Languages'', ['' Python 3'', ''Java'', [CHR 0x85, CHR 0xE9] @ ''cole 42 ''])]"

text \<open>
  Stand-ins for the two collaborators: a language model that answers the same text to
  every prompt, and two outcomes of the JSON parser: it raises on every text, or it
  reads the text \<^verbatim>\<open>[]\<close> as the empty list and raises otherwise.
\<close>

definition llm_answers :: "string \<Rightarrow> string \<Rightarrow> string \<Rightarrow> py_error + string" where
  "llm_answers text system_prompt user_prompt = Inr text"

definition loads_raises :: "string \<Rightarrow> py_error + pyval" where
  "loads_raises text = Inl JSONDecodeError"

definition loads_empty_list :: "string \<Rightarrow> py_error + pyval" where
  "loads_empty_list text = (if text = ''[]'' then Inr (PList []) else Inl JSONDecodeError)"

text \<open>Two lines of prose, and the same prose with the line break already in it.\<close>

definition two_lines :: string where
  "two_lines = ''Builds web apps.'' @ [newline] @ ''Ships fast.''"

definition two_lines_br :: string where
  "two_lines_br = ''Builds web apps.<br>Ships fast.''"




section \<open>Evaluation rules\<close>

lemmas normalize_eval = normalize_skill_def strip_def lower_def lower_char_def isspace_def


section \<open>The skill filter\<close>

text \<open>The code's \<open>strip\<close> computes the trimmed string, and it is the only one.\<close>

lemma trimmed_strip: "trimmed s (strip s)"
proof -
  let ?d = "dropWhile isspace s"
  let ?t = "rev (dropWhile isspace (rev ?d))"
  let ?a = "rev (takeWhile isspace (rev ?d))"
  have d: "?d = ?t @ ?a"
    by (metis rev_append rev_rev_ident takeWhile_dropWhile_id)
  then have s: "s = takeWhile isspace s @ ?t @ ?a"
    by (metis takeWhile_dropWhile_id)
  have b: "list_all isspace (takeWhile isspace s)"
    by (auto simp: list_all_iff dest: set_takeWhileD)
  have a: "list_all isspace ?a"
    by (auto simp: list_all_iff dest: set_takeWhileD)
  have e: "\<not> isspace (hd ?t) \<and> \<not> isspace (last ?t)" if ne: "?t \<noteq> []"
  proof
    from ne d have "hd ?t = hd ?d" by (metis hd_append2)
    moreover from ne d have "?d \<noteq> []" by (metis Nil_is_append_conv)
    ultimately show "\<not> isspace (hd ?t)" by (metis hd_dropWhile)
    from ne have "dropWhile isspace (rev ?d) \<noteq> []" by simp
    then have "\<not> isspace (hd (dropWhile isspace (rev ?d)))" by (rule hd_dropWhile)
    with ne show "\<not> isspace (last ?t)" by (simp add: last_rev)
  qed
  from s b a e show ?thesis
    unfolding trimmed_def strip_def by blast
qed

lemma dropWhile_all: "list_all P xs \<Longrightarrow> dropWhile P (xs @ ys) = dropWhile P ys"
  by (induction xs) auto

lemma trimmed_unique:
  assumes "trimmed s t"
  shows "t = strip s"
proof -
  from assms obtain b a where s: "s = b @ t @ a" and b: "list_all isspace b"
    and a: "list_all isspace a"
    and e: "t \<noteq> [] \<longrightarrow> \<not> isspace (hd t) \<and> \<not> isspace (last t)"
    unfolding trimmed_def by blast
  show ?thesis
  proof (cases "t = []")
    case True
    with s b a have "list_all isspace s" by simp
    then have "dropWhile isspace s = []"
      by (auto simp: list_all_iff dest: set_dropWhileD)
    with True show ?thesis by (auto simp: strip_def dest: set_dropWhileD)
  next
    case False
    with e have h: "\<not> isspace (hd t)" and l: "\<not> isspace (last t)" by auto
    from False h have "dropWhile isspace (t @ a) = t @ a"
      by (cases t) auto
    with s b have d: "dropWhile isspace s = t @ a" by (simp add: dropWhile_all)
    from a have ra: "list_all isspace (rev a)" by (simp add: list_all_iff)
    from False l have "dropWhile isspace (rev t) = rev t"
      by (cases "rev t") (auto simp: last_rev[symmetric] hd_rev)
    with ra have "dropWhile isspace (rev (t @ a)) = rev t"
      by (simp add: dropWhile_all)
    with d show ?thesis by (simp add: strip_def)
  qed
qed

lemma trimmed_iff: "trimmed s t \<longleftrightarrow> t = strip s"
  using trimmed_strip trimmed_unique by blast

lemma normal_form_iff: "normal_form s n \<longleftrightarrow> n = normalize_skill s"
  by (simp add: normal_form_def trimmed_iff normalize_skill_def lower_def)

lemma spec_terms_eq: "spec_terms p = normalize_skill ` term_strings p"
  by (auto simp: spec_terms_def normal_form_iff)

lemma spec_retained_iff:
  "spec_retained p skill \<longleftrightarrow>
     (\<exists>term \<in> spec_terms p. sublist (normalize_skill skill) term)
     \<or> (\<exists>term \<in> spec_terms p. sublist term (normalize_skill skill))
     \<or> normalize_skill skill \<in> ALWAYS_KEEP"
  by (simp add: spec_retained_def normal_form_iff)

lemma always_kept_iff: "always_kept skill \<longleftrightarrow> normalize_skill skill \<in> ALWAYS_KEEP"
  by (simp add: always_kept_def normal_form_iff)

lemma update_fresh: "k \<notin> fst ` set al \<Longrightarrow> AList.update k v al = al @ [(k, v)]"
  by (induction al) auto

lemma restrict_catalog_Nil: "restrict_catalog keep [] = []"
  by (simp add: restrict_catalog_def)

lemma restrict_catalog_Cons:
  "restrict_catalog keep ((c, skills) # rest) =
     (if filter keep skills \<noteq> [] then [(c, filter keep skills)] else [])
     @ restrict_catalog keep rest"
  by (simp add: restrict_catalog_def)

lemma keys_restrict_catalog: "fst ` set (restrict_catalog keep master) \<subseteq> fst ` set master"
  by (force simp: restrict_catalog_def)

text \<open>With distinct categories the loop appends the restricted catalog to its accumulator.\<close>

lemma filter_loop_restrict:
  "distinct (map fst master) \<Longrightarrow> fst ` set acc \<inter> fst ` set master = {} \<Longrightarrow>
   filter_loop terms master acc = acc @ restrict_catalog (keep_skill terms) master"
proof (induction master arbitrary: acc)
  case Nil
  then show ?case by (simp add: restrict_catalog_Nil)
next
  case (Cons a master)
  obtain c skills where a: "a = (c, skills)" by (cases a)
  let ?kept = "filter (keep_skill terms) skills"
  let ?acc = "if ?kept \<noteq> [] then AList.update c ?kept acc else acc"
  from Cons.prems a have fresh: "c \<notin> fst ` set acc" by auto
  then have acc': "?acc = acc @ (if ?kept \<noteq> [] then [(c, ?kept)] else [])"
    by (simp add: update_fresh)
  from Cons.prems a have d: "distinct (map fst master)" and cm: "c \<notin> fst ` set master" by auto
  have "fst ` set ?acc \<inter> fst ` set master = {}"
    using Cons.prems(2) cm a unfolding acc' by (auto simp: image_iff)
  from Cons.IH[OF d this] show ?case
    unfolding a by (simp add: Let_def restrict_catalog_Cons acc')
qed

lemma normalize_values_strs: "normalize_values (map PStr ss) = Inr (map normalize_skill ss)"
  by (induction ss) auto

lemma job_terms_profile: "job_terms (profile_dict p) = Inr (spec_terms p)"
  by (auto simp: job_terms_def term_keys_def profile_dict_def spec_terms_eq term_strings_def
      normalize_values_strs)

lemma keep_skill_spec: "keep_skill (spec_terms p) skill = spec_retained p skill"
  by (auto simp: keep_skill_def spec_retained_iff str_in_def Let_def)

lemma build_profile:
  "distinct (map fst master) \<Longrightarrow>
   build_relevant_skills (profile_dict p) master = Inr (restrict_catalog (spec_retained p) master)"
  by (simp add: build_relevant_skills_def job_terms_profile filter_loop_restrict keep_skill_spec[abs_def])

lemma restrict_catalog_idem:
  "restrict_catalog keep (restrict_catalog keep master) = restrict_catalog keep master"
  by (induction master) (auto simp: restrict_catalog_def)

lemma distinct_restrict_catalog:
  "distinct (map fst master) \<Longrightarrow> distinct (map fst (restrict_catalog keep master))"
proof (induction master)
  case Nil
  then show ?case by (simp add: restrict_catalog_Nil)
next
  case (Cons a master)
  obtain c skills where a: "a = (c, skills)" by (cases a)
  from Cons.prems a have "c \<notin> fst ` set master" by auto
  with keys_restrict_catalog[of keep master]
  have "c \<notin> fst ` set (restrict_catalog keep master)" by blast
  with Cons show ?case unfolding a by (simp add: restrict_catalog_Cons)
qed

lemma map_of_restrict_catalog:
  "distinct (map fst master) \<Longrightarrow>
   map_of (restrict_catalog keep master) c =
     (case map_of master c of
        None \<Rightarrow> None
      | Some skills \<Rightarrow> if filter keep skills = [] then None else Some (filter keep skills))"
proof (induction master)
  case Nil
  then show ?case by (simp add: restrict_catalog_Nil)
next
  case (Cons a master)
  obtain c' skills where a: "a = (c', skills)" by (cases a)
  from Cons.prems a have "c' \<notin> fst ` set master" by auto
  then have "map_of master c' = None" by (simp add: map_of_eq_None_iff)
  with Cons show ?case unfolding a by (auto simp: restrict_catalog_Cons)
qed

lemma subseq_keys_restrict_catalog:
  "subseq (map fst (restrict_catalog keep master)) (map fst master)"
  by (induction master) (auto simp: restrict_catalog_def)

lemma restrict_catalog_entries:
  "(c, kept) \<in> set (restrict_catalog keep master) \<Longrightarrow>
   kept \<noteq> [] \<and> (\<exists>skills. (c, skills) \<in> set master \<and> kept = filter keep skills)"
  by (auto simp: restrict_catalog_def)

lemma sql_example:
  "build_relevant_skills (profile_dict sql_profile) databases_catalog
     = Inr [(''Databases'', [''MySQL'', ''MongoDB''])]"
  by (simp add: build_relevant_skills_def job_terms_def term_keys_def profile_dict_def
      sql_profile_def databases_catalog_def keep_skill_def normalize_eval str_in_def
      sublist_Cons_right ALWAYS_KEEP_def)

lemma shouting_example:
  "build_relevant_skills (profile_dict shouting_profile) languages_catalog
     = Inr [(''Languages'', ['' Python 3'', [CHR 0x85, CHR 0xE9] @ ''cole 42 ''])]"
  by (simp add: build_relevant_skills_def job_terms_def term_keys_def profile_dict_def
      shouting_profile_def languages_catalog_def keep_skill_def normalize_eval str_in_def
      sublist_Cons_right ALWAYS_KEEP_def)

text \<open>
  Claim C1. For a job profile whose fields are lists of strings and a master catalog
  (a dict, so its categories are distinct), the job terms are the lower-cased, trimmed
  strings of \<^verbatim>\<open>required_skills\<close>, \<^verbatim>\<open>preferred_skills\<close>, \<^verbatim>\<open>tools\<close> and
  \<^verbatim>\<open>keywords\<close> only, the filter returns, and a catalog skill stands in the output
  under its category if and only if its lower-cased, trimmed form is a substring of some
  job term, or some job term is a substring of it, or it is in the always-keep list. On
  the profile that requires only \<^verbatim>\<open>sql\<close> and the catalog
  \<^verbatim>\<open>{"Databases": ["MySQL", "MongoDB"]}\<close> both skills are kept. On a profile and a
  catalog that need lower-casing and trimming (tab, newline, U+0085, U+00A0, a capital
  E acute) the skills are matched through both, and a word of \<^verbatim>\<open>responsibilities\<close>
  matches nothing.
\<close>

theorem filter_retains:
  assumes "distinct (map fst master)"
  shows "job_terms (profile_dict p) = Inr (spec_terms p)
       \<and> (\<exists>out. build_relevant_skills (profile_dict p) master = Inr out
            \<and> (\<forall>(category, skills) \<in> set master. \<forall>skill \<in> set skills.
                 retained out category skill \<longleftrightarrow> spec_retained p skill))
       \<and> build_relevant_skills (profile_dict sql_profile) databases_catalog
           = Inr [(''Databases'', [''MySQL'', ''MongoDB''])]
       \<and> build_relevant_skills (profile_dict shouting_profile) languages_catalog
           = Inr [(''Languages'', ['' Python 3'', [CHR 0x85, CHR 0xE9] @ ''cole 42 ''])]
       \<and> ALWAYS_KEEP = {''git'', ''github'', ''debugging'', ''react'', ''next.js'',
                         ''node.js'', ''express.js'', ''sql'', ''mysql'', ''mongodb''}"
proof -
  let ?out = "restrict_catalog (spec_retained p) master"
  have ret: "retained ?out category skill \<longleftrightarrow> spec_retained p skill"
    if "(category, skills) \<in> set master" "skill \<in> set skills" for category skills skill
  proof -
    from that(1) assms have "map_of master category = Some skills" by simp
    then show ?thesis
      using that(2) by (auto simp: retained_def map_of_restrict_catalog[OF assms] filter_empty_conv)
  qed
  have "\<exists>out. build_relevant_skills (profile_dict p) master = Inr out
            \<and> (\<forall>(category, skills) \<in> set master. \<forall>skill \<in> set skills.
                 retained out category skill \<longleftrightarrow> spec_retained p skill)"
    using ret by (auto simp: build_profile[OF assms])
  with sql_example shouting_example job_terms_profile[of p] show ?thesis
    by (simp add: ALWAYS_KEEP_def)
qed

theorem filter_retains_witness:
  "distinct (map fst languages_catalog)
   \<and> (\<exists>out. build_relevant_skills (profile_dict shouting_profile) languages_catalog = Inr out
         \<and> retained out ''Languages'' '' Python 3''
         \<and> \<not> retained out ''Languages'' ''Java'')
   \<and> spec_retained shouting_profile '' Python 3''
   \<and> \<not> spec_retained shouting_profile ''Java''
   \<and> normal_form '' Python 3'' ''python 3''"
proof -
  have d: "distinct (map fst languages_catalog)"
    by (simp add: languages_catalog_def)
  have t: "spec_terms shouting_profile = {[CHR 0xE9] @ ''cole'', ''python''}"
    by (simp add: spec_terms_eq term_strings_def shouting_profile_def normalize_eval)
  have np: "normalize_skill '' Python 3'' = ''python 3''"
    by (simp add: normalize_eval)
  have nj: "normalize_skill ''Java'' = ''java''"
    by (simp add: normalize_eval)
  have r: "spec_retained shouting_profile '' Python 3''"
    by (simp add: spec_retained_iff t np sublist_Cons_right)
  have n: "\<not> spec_retained shouting_profile ''Java''"
    by (simp add: spec_retained_iff t nj ALWAYS_KEEP_def sublist_Cons_right)
  have f: "normal_form '' Python 3'' ''python 3''"
    by (simp add: normal_form_iff np)
  note known = filter_retains[OF d, of shouting_profile]
  from known[THEN conjunct2, THEN conjunct1] obtain out where
    out: "build_relevant_skills (profile_dict shouting_profile) languages_catalog = Inr out"
    and iff: "\<forall>(category, skills) \<in> set languages_catalog. \<forall>skill \<in> set skills.
                 retained out category skill \<longleftrightarrow> spec_retained shouting_profile skill"
    by (elim exE conjE)
  have m: "(''Languages'', ['' Python 3'', ''Java'', [CHR 0x85, CHR 0xE9] @ ''cole 42 ''])
             \<in> set languages_catalog"
    by (simp add: languages_catalog_def)
  from bspec[OF iff m] have each: "\<forall>skill \<in> set ['' Python 3'', ''Java'',
        [CHR 0x85, CHR 0xE9] @ ''cole 42 ''].
      retained out ''Languages'' skill \<longleftrightarrow> spec_retained shouting_profile skill"
    by simp
  have "'' Python 3'' \<in> set ['' Python 3'', ''Java'', [CHR 0x85, CHR 0xE9] @ ''cole 42 '']"
    by simp
  from bspec[OF each this] r have a: "retained out ''Languages'' '' Python 3''"
    by (rule iffD2)
  have "''Java'' \<in> set ['' Python 3'', ''Java'', [CHR 0x85, CHR 0xE9] @ ''cole 42 '']"
    by simp
  from bspec[OF each this] have "retained out ''Languages'' ''Java''
      \<longleftrightarrow> spec_retained shouting_profile ''Java''" .
  with n have b: "\<not> retained out ''Languages'' ''Java''"
    by (rule_tac notI) (erule notE, erule iffD1)
  from out a b have e: "\<exists>out. build_relevant_skills (profile_dict shouting_profile)
         languages_catalog = Inr out
         \<and> retained out ''Languages'' '' Python 3''
         \<and> \<not> retained out ''Languages'' ''Java''"
    by (intro exI conjI)
  from d e r n f show ?thesis by (intro conjI)
qed

text \<open>
  Claim C2. When \<^verbatim>\<open>required_skills\<close>, \<^verbatim>\<open>preferred_skills\<close>, \<^verbatim>\<open>tools\<close> and
  \<^verbatim>\<open>keywords\<close> are all empty, the term set is empty and the filter returns the catalog
  restricted to the skills whose normalized form is in the always-keep list: these and
  no others. When no catalog skill is always kept the result is the empty mapping, and
  nothing is raised.
\<close>

theorem empty_terms_only_always_kept:
  assumes "distinct (map fst master)"
    and "required_skills p = []" and "preferred_skills p = []"
    and "tools p = []" and "keywords' p = []"
  shows "job_terms (profile_dict p) = Inr {}
       \<and> build_relevant_skills (profile_dict p) master = Inr (restrict_catalog always_kept master)
       \<and> ((\<forall>(category, skills) \<in> set master. \<forall>skill \<in> set skills. \<not> always_kept skill)
            \<longrightarrow> build_relevant_skills (profile_dict p) master = Inr [])"
proof -
  from assms(2-5) have e: "spec_terms p = {}"
    by (simp add: spec_terms_eq term_strings_def)
  then have k: "spec_retained p = always_kept"
    by (auto simp: spec_retained_iff always_kept_iff fun_eq_iff)
  have n: "restrict_catalog always_kept master = []"
    if "\<forall>(category, skills) \<in> set master. \<forall>skill \<in> set skills. \<not> always_kept skill"
    using that by (induction master) (auto simp: restrict_catalog_def filter_empty_conv)
  from e k n show ?thesis
    by (simp add: job_terms_profile build_profile[OF assms(1)])
qed

theorem empty_terms_only_always_kept_witness:
  "distinct (map fst mixed_catalog)
   \<and> required_skills idle_profile = [] \<and> preferred_skills idle_profile = []
   \<and> tools idle_profile = [] \<and> keywords' idle_profile = []
   \<and> build_relevant_skills (profile_dict idle_profile) mixed_catalog
       = Inr [(''Databases'', [padded_mysql])]
   \<and> \<not> always_kept ''Cobol''
   \<and> build_relevant_skills (profile_dict idle_profile) [(''Legacy'', [''Cobol''])] = Inr []"
proof -
  have d: "distinct (map fst mixed_catalog)"
    by (simp add: mixed_catalog_def)
  have e: "required_skills idle_profile = []" "preferred_skills idle_profile = []"
    "tools idle_profile = []" "keywords' idle_profile = []"
    by (simp_all add: idle_profile_def)
  have r: "restrict_catalog always_kept mixed_catalog = [(''Databases'', [padded_mysql])]"
    by (simp add: restrict_catalog_def mixed_catalog_def padded_mysql_def always_kept_iff
        ALWAYS_KEEP_def normalize_eval)
  from empty_terms_only_always_kept[OF d e]
  have "build_relevant_skills (profile_dict idle_profile) mixed_catalog
          = Inr (restrict_catalog always_kept mixed_catalog)"
    by blast
  with r have a: "build_relevant_skills (profile_dict idle_profile) mixed_catalog
          = Inr [(''Databases'', [padded_mysql])]"
    by simp
  have n: "\<not> always_kept ''Cobol''"
    by (simp add: always_kept_iff ALWAYS_KEEP_def normalize_eval)
  have d': "distinct (map fst [(''Legacy'', [''Cobol''])])"
    by simp
  from n have "\<forall>(category, skills) \<in> set [(''Legacy'', [''Cobol''])].
                 \<forall>skill \<in> set skills. \<not> always_kept skill"
    by simp
  with empty_terms_only_always_kept[OF d' e]
  have b: "build_relevant_skills (profile_dict idle_profile) [(''Legacy'', [''Cobol''])] = Inr []"
    by blast
  from d e a n b show ?thesis by blast
qed

text \<open>
  Claim C3. The filter's output is the master catalog restricted to the kept skills:
  its categories are a subsequence of the catalog's categories, each kept list is a
  non-empty subsequence of that category's skills, and a skill that stands in the
  output stands in the master catalog under the same category.
\<close>

theorem filter_restricts_catalog:
  assumes "distinct (map fst master)"
  shows "\<exists>out. build_relevant_skills (profile_dict p) master = Inr out
       \<and> out = restrict_catalog (spec_retained p) master
       \<and> subseq (map fst out) (map fst master)
       \<and> (\<forall>(category, kept) \<in> set out.
            kept \<noteq> [] \<and> (\<exists>skills. map_of master category = Some skills \<and> subseq kept skills))
       \<and> (\<forall>category skill. retained out category skill \<longrightarrow>
            (\<exists>skills. (category, skills) \<in> set master \<and> skill \<in> set skills))"
proof -
  let ?out = "restrict_catalog (spec_retained p) master"
  have a: "\<forall>(category, kept) \<in> set ?out.
            kept \<noteq> [] \<and> (\<exists>skills. map_of master category = Some skills \<and> subseq kept skills)"
  proof (clarify)
    fix c kept assume "(c, kept) \<in> set ?out"
    from restrict_catalog_entries[OF this] obtain skills where
      "kept \<noteq> []" "(c, skills) \<in> set master" "kept = filter (spec_retained p) skills" by blast
    with assms show "kept \<noteq> [] \<and> (\<exists>skills. map_of master c = Some skills \<and> subseq kept skills)"
      by auto
  qed
  have b: "\<exists>skills. (c, skills) \<in> set master \<and> skill \<in> set skills" if "retained ?out c skill"
    for c skill
  proof -
    from that obtain kept where "map_of ?out c = Some kept" "skill \<in> set kept"
      by (auto simp: retained_def)
    then have "(c, kept) \<in> set ?out" by (simp add: map_of_SomeD)
    from restrict_catalog_entries[OF this] \<open>skill \<in> set kept\<close> show ?thesis by auto
  qed
  from a b show ?thesis
    by (simp add: build_profile[OF assms] subseq_keys_restrict_catalog)
qed

theorem filter_restricts_catalog_witness:
  "distinct (map fst mixed_catalog)
   \<and> (\<exists>out. build_relevant_skills (profile_dict sql_profile) mixed_catalog = Inr out
         \<and> out = [(''Databases'', [padded_mysql])]
         \<and> subseq (map fst out) (map fst mixed_catalog))"
proof -
  have d: "distinct (map fst mixed_catalog)"
    by (simp add: mixed_catalog_def)
  have "restrict_catalog (spec_retained sql_profile) mixed_catalog
          = [(''Databases'', [padded_mysql])]"
    by (simp add: restrict_catalog_def mixed_catalog_def padded_mysql_def spec_retained_iff
        spec_terms_eq term_strings_def sql_profile_def ALWAYS_KEEP_def normalize_eval
        sublist_Cons_right)
  with filter_restricts_catalog[OF d, of sql_profile] d show ?thesis by auto
qed

text \<open>
  Claim C8. Filtering is idempotent: the filter returns, and filtering its output
  again with the same job profile returns that output unchanged.
\<close>

theorem filter_idempotent:
  assumes "distinct (map fst master)"
  shows "\<exists>out. build_relevant_skills (profile_dict p) master = Inr out
       \<and> build_relevant_skills (profile_dict p) out = Inr out"
  using assms
  by (simp add: build_profile distinct_restrict_catalog restrict_catalog_idem)

theorem filter_idempotent_witness:
  "distinct (map fst databases_catalog)
   \<and> (\<exists>out. build_relevant_skills (profile_dict sql_profile) databases_catalog = Inr out
         \<and> build_relevant_skills (profile_dict sql_profile) out = Inr out
         \<and> out = [(''Databases'', [''MySQL'', ''MongoDB''])])"
proof -
  have d: "distinct (map fst databases_catalog)"
    by (simp add: databases_catalog_def)
  from filter_idempotent[OF d, of sql_profile] sql_example d show ?thesis by auto
qed

section \<open>Job profile extraction\<close>

lemma empty_job_profile_record:
  "empty_job_profile = profile_dict \<lparr>required_skills = [], preferred_skills = [], tools = [],
     responsibilities = [], soft_skills = [], keywords' = [], job_title = [], company_name = []\<rparr>"
  by (simp add: empty_job_profile_def profile_dict_def)

text \<open>
  Claim C4. When the language model has answered and \<^verbatim>\<open>json.loads\<close> raises on the
  answer, \<^verbatim>\<open>extract_job_profile\<close> returns (no exception escapes) the fixed record: the
  six sequence fields empty lists, \<^verbatim>\<open>job_title\<close> and \<^verbatim>\<open>company_name\<close> empty strings.
\<close>

theorem unparsable_response_gives_empty_profile:
  assumes "call_llm extract_system_prompt (extract_user_prompt job_posting) = Inr response"
    and "json_loads response = Inl e"
  shows "extract_job_profile json_loads call_llm job_posting = Inr empty_job_profile
       \<and> empty_job_profile = PDict
           [(''required_skills'', PList []), (''preferred_skills'', PList []),
            (''tools'', PList []), (''responsibilities'', PList []),
            (''soft_skills'', PList []), (''keywords'', PList []),
            (''job_title'', PStr []), (''company_name'', PStr [])]"
  using assms by (simp add: extract_job_profile_def empty_job_profile_def)

theorem unparsable_response_gives_empty_profile_witness:
  "llm_answers ''Sure! Here are the fields.'' extract_system_prompt
       (extract_user_prompt ''Python developer'') = Inr ''Sure! Here are the fields.''
   \<and> loads_raises ''Sure! Here are the fields.'' = Inl JSONDecodeError
   \<and> extract_job_profile loads_raises (llm_answers ''Sure! Here are the fields.'')
       ''Python developer'' = Inr empty_job_profile"
proof -
  have a: "llm_answers ''Sure! Here are the fields.'' extract_system_prompt
       (extract_user_prompt ''Python developer'') = Inr ''Sure! Here are the fields.''"
    by (simp add: llm_answers_def)
  have b: "loads_raises ''Sure! Here are the fields.'' = Inl JSONDecodeError"
    by (simp add: loads_raises_def)
  from unparsable_response_gives_empty_profile
         [where call_llm = "llm_answers ''Sure! Here are the fields.''"
            and json_loads = loads_raises and job_posting = "''Python developer''"
            and response = "''Sure! Here are the fields.''" and e = JSONDecodeError] a b
  show ?thesis by blast
qed

text \<open>
  Claim C9, as stated, fails: a response that parses as JSON is returned as parsed. The
  response \<^verbatim>\<open>[]\<close> parses to the empty list, which is not a job profile record, and
  \<^verbatim>\<open>extract_job_profile\<close> returns that list, not the all-empty record.
\<close>

theorem parsed_non_record_is_returned:
  "extract_job_profile loads_empty_list (llm_answers ''[]'') ''Python developer'' = Inr (PList [])
   \<and> \<not> well_formed_profile (PList [])
   \<and> PList [] \<noteq> empty_job_profile
   \<and> well_formed_profile empty_job_profile"
  by (simp add: extract_job_profile_def loads_empty_list_def llm_answers_def
      well_formed_profile_def empty_job_profile_def)

text \<open>
  Claim C9, amended. \<^verbatim>\<open>extract_job_profile\<close> falls back to the all-empty record when
  \<^verbatim>\<open>json.loads\<close> raises on the response, and only then: a response that parses is
  returned as parsed, whatever its shape, with no check that it is a job profile record.
\<close>

theorem extract_falls_back_only_on_exception:
  assumes "call_llm extract_system_prompt (extract_user_prompt job_posting) = Inr response"
  shows "(\<forall>e. json_loads response = Inl e \<longrightarrow>
            extract_job_profile json_loads call_llm job_posting = Inr empty_job_profile)
       \<and> (\<forall>v. json_loads response = Inr v \<longrightarrow>
            extract_job_profile json_loads call_llm job_posting = Inr v)"
  using assms by (simp add: extract_job_profile_def)

theorem extract_falls_back_only_on_exception_witness:
  "llm_answers ''[]'' extract_system_prompt (extract_user_prompt ''Python developer'') = Inr ''[]''
   \<and> loads_empty_list ''[]'' = Inr (PList [])
   \<and> extract_job_profile loads_empty_list (llm_answers ''[]'') ''Python developer''
       = Inr (PList [])
   \<and> loads_raises ''[]'' = Inl JSONDecodeError
   \<and> extract_job_profile loads_raises (llm_answers ''[]'') ''Python developer''
       = Inr empty_job_profile"
proof -
  have a: "llm_answers ''[]'' extract_system_prompt (extract_user_prompt ''Python developer'')
             = Inr ''[]''"
    by (simp add: llm_answers_def)
  have b: "loads_empty_list ''[]'' = Inr (PList [])"
    by (simp add: loads_empty_list_def)
  have c: "loads_raises ''[]'' = Inl JSONDecodeError"
    by (simp add: loads_raises_def)
  from extract_falls_back_only_on_exception
         [where call_llm = "llm_answers ''[]''" and json_loads = loads_empty_list
            and job_posting = "''Python developer''" and response = "''[]''"] a b
  have d: "extract_job_profile loads_empty_list (llm_answers ''[]'') ''Python developer''
             = Inr (PList [])"
    by blast
  from extract_falls_back_only_on_exception
         [where call_llm = "llm_answers ''[]''" and json_loads = loads_raises
            and job_posting = "''Python developer''" and response = "''[]''"] a c
  have e: "extract_job_profile loads_raises (llm_answers ''[]'') ''Python developer''
             = Inr empty_job_profile"
    by blast
  from a b c d e show ?thesis by blast
qed

section \<open>The skills table\<close>









section \<open>Template filling\<close>

lemmas fill_eval = fill_resume_template_def fill_static_placeholders_def load_profile_def
  getenv_def placeholder_def py_replace_def strip_def isspace_def newline_def

lemma no_newline_after_nl2br: "newline \<notin> set (py_replace [newline] ''<br>'' s)"
proof -
  have "newline \<notin> set (replace_scan [newline] ''<br>'' s)"
    by (induction s) (auto simp: newline_def)
  then show ?thesis by (simp add: py_replace_def)
qed

text \<open>
  Claim C5. The claim holds for the projects and the experience prose and fails for the
  summary: \<^verbatim>\<open>fill_resume_template\<close> substitutes \<^verbatim>\<open>summary.strip()\<close> as it is. With
  the template \<^verbatim>\<open><p>{{SUMMARY}}</p>\<close> and a summary of two lines the filled template
  holds a raw newline where the placeholder stood; the same prose under
  \<^verbatim>\<open>{{PROJECTS}}\<close> or \<^verbatim>\<open>{{EXPERIENCE}}\<close> comes out with \<^verbatim>\<open><br>\<close>, and no newline
  is left in any text that went through the replacement.
\<close>

theorem summary_newline_kept:
  "fill_resume_template Map.empty ''<p>{{SUMMARY}}</p>'' two_lines [] [] []
     = ''<p>Builds web apps.'' @ [newline] @ ''Ships fast.</p>''
   \<and> newline \<in> set (fill_resume_template Map.empty ''<p>{{SUMMARY}}</p>'' two_lines [] [] [])
   \<and> fill_resume_template Map.empty ''<p>{{PROJECTS}}</p>'' [] two_lines [] []
     = ''<p>Builds web apps.<br>Ships fast.</p>''
   \<and> fill_resume_template Map.empty ''<p>{{EXPERIENCE}}</p>'' [] [] two_lines []
     = ''<p>Builds web apps.<br>Ships fast.</p>''
   \<and> newline \<notin> set (py_replace [newline] ''<br>'' s)"
proof -
  have a: "fill_resume_template Map.empty ''<p>{{SUMMARY}}</p>'' two_lines [] [] []
     = ''<p>Builds web apps.'' @ [newline] @ ''Ships fast.</p>''"
    by (simp add: fill_eval two_lines_def)
  have b: "fill_resume_template Map.empty ''<p>{{PROJECTS}}</p>'' [] two_lines [] []
     = ''<p>Builds web apps.<br>Ships fast.</p>''"
    by (simp add: fill_eval two_lines_def)
  have c: "fill_resume_template Map.empty ''<p>{{EXPERIENCE}}</p>'' [] [] two_lines []
     = ''<p>Builds web apps.<br>Ships fast.</p>''"
    by (simp add: fill_eval two_lines_def)
  from a b c no_newline_after_nl2br[of s] show ?thesis by simp
qed


























section \<open>The cover letter\<close>

text \<open>
  Claim C10. The cover-letter HTML does not depend on the job profile: two profiles
  give the same string, and the string is determined by the text with its newlines
  replaced by \<^verbatim>\<open><br>\<close>.
\<close>

theorem cover_letter_ignores_profile:
  "build_cover_letter_html text p1 = build_cover_letter_html text p2
   \<and> (py_replace [newline] ''<br>'' text = py_replace [newline] ''<br>'' text'
        \<longrightarrow> build_cover_letter_html text p1 = build_cover_letter_html text' p2)"
  by (simp add: build_cover_letter_html_def)

theorem cover_letter_ignores_profile_witness:
  "py_replace [newline] ''<br>'' two_lines = py_replace [newline] ''<br>'' two_lines_br
   \<and> build_cover_letter_html two_lines (PList []) = build_cover_letter_html two_lines_br empty_job_profile"
proof -
  have a: "py_replace [newline] ''<br>'' two_lines = py_replace [newline] ''<br>'' two_lines_br"
    by (simp add: py_replace_def two_lines_def two_lines_br_def newline_def)
  with cover_letter_ignores_profile[of two_lines "PList []" empty_job_profile two_lines_br]
  show ?thesis by blast
qed

end
